theory Spec2Isabelle
  imports Complex_Main "HOL-Library.Multiset"
begin

section \<open>Strings as Python uses them\<close>

text \<open>
  File names are modelled as \<^typ>\<open>string\<close>. The functions below are the string methods that
  the scripts call: \<open>str.upper\<close> and \<open>str.lower\<close> on the letters a to z, \<open>str.replace\<close> of one
  character by another, \<open>str.split\<close> with a one-character separator (which always returns
  at least one part and keeps empty parts), \<open>str.startswith\<close> and \<open>str.endswith\<close>.
\<close>

definition upper_char :: "char \<Rightarrow> char" where
  "upper_char c =
     (let n = (of_char c :: nat) in if 97 \<le> n \<and> n \<le> 122 then char_of (n - 32) else c)"

definition lower_char :: "char \<Rightarrow> char" where
  "lower_char c =
     (let n = (of_char c :: nat) in if 65 \<le> n \<and> n \<le> 90 then char_of (n + 32) else c)"

definition upper :: "string \<Rightarrow> string" where
  "upper s = map upper_char s"

definition lower :: "string \<Rightarrow> string" where
  "lower s = map lower_char s"

definition replace_char :: "char \<Rightarrow> char \<Rightarrow> string \<Rightarrow> string" where
  "replace_char old new s = map (\<lambda>c. if c = old then new else c) s"

fun split_char :: "char \<Rightarrow> string \<Rightarrow> string list" where
  "split_char sep [] = [[]]"
| "split_char sep (c # cs) =
     (if c = sep then [] # split_char sep cs
      else (case split_char sep cs of
              [] \<Rightarrow> [[c]]
            | p # ps \<Rightarrow> (c # p) # ps))"

fun join_char :: "char \<Rightarrow> string list \<Rightarrow> string" where
  "join_char sep [] = []"
| "join_char sep [p] = p"
| "join_char sep (p # q # ps) = p @ sep # join_char sep (q # ps)"

definition startswith :: "string \<Rightarrow> string \<Rightarrow> bool" where
  "startswith s pre = (take (length pre) s = pre)"

definition endswith :: "string \<Rightarrow> string \<Rightarrow> bool" where
  "endswith s suf = (length suf \<le> length s \<and> drop (length s - length suf) s = suf)"

section \<open>split\_data.py: labels from file names\<close>

definition valid_stages :: "string list" where
  "valid_stages = [''PROESTRUS'', ''ESTRUS'', ''METESTRUS'', ''DIESTRUS'']"

text \<open>
  The loop of \<open>parse_label\<close> over the parts of the name. The case mapping is a parameter, so
  that what is proved of the loop does not depend on how \<open>str.upper\<close> treats characters
  outside a to z; \<open>parse_label\<close> itself fixes it to \<^const>\<open>upper\<close>.
\<close>

fun parse_parts :: "(string \<Rightarrow> string) \<Rightarrow> string list \<Rightarrow> string" where
  "parse_parts up [] = ''UNKNOWN''"
| "parse_parts up (part # parts) =
     (let upper_part = up part;
          upper_part = (if upper_part = ''PROESTTRUS'' then ''PROESTRUS'' else upper_part)
      in if upper_part \<in> set valid_stages then upper_part else parse_parts up parts)"

definition label_parts :: "string \<Rightarrow> string list" where
  "label_parts filename = split_char CHR ''_'' (replace_char CHR ''.'' CHR ''_'' filename)"

definition parse_label_with :: "(string \<Rightarrow> string) \<Rightarrow> string \<Rightarrow> string" where
  "parse_label_with up filename = parse_parts up (label_parts filename)"

definition parse_label :: "string \<Rightarrow> string" where
  "parse_label filename = parse_label_with upper filename"

section \<open>Exceptions and paths\<close>

text \<open>
  A Python exception is a value: its class, as far as a handler of the repository tells
  classes apart, and its message. \<open>Exception\<close> stands for every other subclass of
  \<open>Exception\<close>. The two \<open>requests\<close> classes are those that \<open>sam3_cloud.py\<close> catches by name.
\<close>

datatype py_exn =
    ValueError string
  | IndexError string
  | KeyError string
  | RequestsTimeout string
  | RequestsConnectionError string
  | Exception string

fun exn_str :: "py_exn \<Rightarrow> string" where
  "exn_str (ValueError m) = m"
| "exn_str (IndexError m) = m"
| "exn_str (KeyError m) = m"
| "exn_str (RequestsTimeout m) = m"
| "exn_str (RequestsConnectionError m) = m"
| "exn_str (Exception m) = m"

text \<open>\<open>os.path.join\<close> of two components on POSIX.\<close>

definition os_path_join :: "string \<Rightarrow> string \<Rightarrow> string" where
  "os_path_join a b =
     (if startswith b ''/'' then b
      else if a = [] \<or> endswith a ''/'' then a @ b
      else a @ ''/'' @ b)"

section \<open>main.py and segment.py: crop boxes\<close>

type_synonym 'a box = "'a \<times> 'a \<times> 'a \<times> 'a"

text \<open>
  The padding of a box \<open>(xmin, ymin, xmax, ymax)\<close> by 20 pixels, clamped below at 0 and
  above at the image size. These five lines are the same in \<open>segment_with_sam2\<close>
  (main.py), where the coordinates are integer indices, and in \<open>crop_genitals\<close>
  (segment.py), where they are the detector's floating-point numbers; only the order and
  the addition of a constant are used, so the type is any ordered ring.
\<close>

definition pad_box :: "'a::linordered_idom \<Rightarrow> 'a \<Rightarrow> 'a box \<Rightarrow> 'a box" where
  "pad_box w h box =
     (case box of (xmin, ymin, xmax, ymax) \<Rightarrow>
        let padding = 20;
            xmin = max 0 (xmin - padding);
            ymin = max 0 (ymin - padding);
            xmax = min w (xmax + padding);
            ymax = min h (ymax + padding)
        in (xmin, ymin, xmax, ymax))"

text \<open>
  A mask is a two-dimensional boolean array, a list of rows. \<open>np.any\<close> along axis 1 gives one
  boolean per row, along axis 0 one per column; \<open>np.where(v)[0]\<close> lists the indices at which
  \<open>v\<close> is true, in increasing order; indexing the result with \<open>[[0, -1]]\<close> takes its first and
  last element and raises IndexError when it is empty.
\<close>

type_synonym mask = "bool list list"

definition np_any :: "bool list \<Rightarrow> bool" where
  "np_any bs = list_ex (\<lambda>b. b) bs"

definition any_axis1 :: "mask \<Rightarrow> bool list" where
  "any_axis1 m = map np_any m"

definition mask_width :: "mask \<Rightarrow> nat" where
  "mask_width m = (case m of [] \<Rightarrow> 0 | r # _ \<Rightarrow> length r)"

definition any_axis0 :: "mask \<Rightarrow> bool list" where
  "any_axis0 m = map (\<lambda>j. list_ex (\<lambda>row. j < length row \<and> row ! j) m) [0..<mask_width m]"

definition np_where :: "bool list \<Rightarrow> int list" where
  "np_where bs = map int (filter (\<lambda>i. bs ! i) [0..<length bs])"

definition first_last :: "int list \<Rightarrow> py_exn + int \<times> int" where
  "first_last xs =
     (case xs of
        [] \<Rightarrow> Inl (IndexError ''index 0 is out of bounds for axis 0 with size 0'')
      | x # _ \<Rightarrow> Inr (x, last xs))"

text \<open>
  \<open>segment_with_sam2\<close>, lines 124 to 141 of main.py: the crop for one mask. \<open>crop\<close> is
  \<open>Image.crop\<close>, which may raise.
\<close>

definition mask_crop ::
  "('img \<Rightarrow> int box \<Rightarrow> py_exn + 'img) \<Rightarrow> 'img \<Rightarrow> int \<Rightarrow> int \<Rightarrow> mask \<Rightarrow> py_exn + 'img option"
where
  "mask_crop crop img w h m =
     (let rows = any_axis1 m; cols = any_axis0 m in
      if np_any rows \<and> np_any cols then
        (case first_last (np_where rows) of
           Inl e \<Rightarrow> Inl e
         | Inr (ymin, ymax) \<Rightarrow>
            (case first_last (np_where cols) of
               Inl e \<Rightarrow> Inl e
             | Inr (xmin, xmax) \<Rightarrow>
                (case crop img (pad_box w h (xmin, ymin, xmax, ymax)) of
                   Inl e \<Rightarrow> Inl e
                 | Inr cropped \<Rightarrow> Inr (Some cropped))))
      else Inr None)"

text \<open>
  The body of the \<open>try\<close> of \<open>segment_with_sam2\<close>. \<open>infer\<close> stands for the processor, the
  model and \<open>post_process_masks\<close>, whose result is indexed as \<open>masks[0, 0]\<close>.
\<close>

definition sam2_try ::
  "('img \<Rightarrow> py_exn + mask list list) \<Rightarrow> ('img \<Rightarrow> int \<times> int)
    \<Rightarrow> ('img \<Rightarrow> int box \<Rightarrow> py_exn + 'img) \<Rightarrow> 'img \<Rightarrow> py_exn + 'img option"
where
  "sam2_try infer size_of crop img =
     (case size_of img of (w, h) \<Rightarrow>
        (case infer img of
           Inl e \<Rightarrow> Inl e
         | Inr masks \<Rightarrow>
            if length masks > 0 then
              (case hd masks of
                 [] \<Rightarrow> Inl (IndexError ''index 0 is out of bounds for dimension 1 with size 0'')
               | m # _ \<Rightarrow> mask_crop crop img w h m)
            else Inr None))"

text \<open>
  \<open>segment_with_sam2\<close>: nothing is done when the model is not loaded, and every exception of
  the body is printed and turned into \<open>None\<close>. The second component is what is printed.
\<close>

definition segment_with_sam2 ::
  "bool \<Rightarrow> ('img \<Rightarrow> py_exn + mask list list) \<Rightarrow> ('img \<Rightarrow> int \<times> int)
    \<Rightarrow> ('img \<Rightarrow> int box \<Rightarrow> py_exn + 'img) \<Rightarrow> 'img \<Rightarrow> 'img option \<times> string list"
where
  "segment_with_sam2 loaded infer size_of crop img =
     (if \<not> loaded then (None, [])
      else (case sam2_try infer size_of crop img of
              Inl e \<Rightarrow> (None, [''SAM 2.1 segmentation error: '' @ exn_str e])
            | Inr r \<Rightarrow> (r, [])))"

section \<open>segment.py: cropping a directory of images\<close>










section \<open>main.py: the HTTP service\<close>

text \<open>\<open>str.capitalize\<close>: the first character in upper case, the others in lower case.\<close>

definition capitalize :: "string \<Rightarrow> string" where
  "capitalize s = (case s of [] \<Rightarrow> [] | c # cs \<Rightarrow> upper_char c # lower cs)"

text \<open>
  The module's globals that the endpoints read. The two BioCLIP globals are \<open>None\<close> until
  the startup hook has loaded the model (\<open>False\<close> here); \<open>classifier_data\<close> is \<open>None\<close> when
  no \<open>classifier.pkl\<close> could be loaded. Of the classifier only what
  \<open>classify_with_linear_probe\<close> calls is kept: \<open>predict\<close>, \<open>predict_proba\<close> and the classes
  of the label encoder.
\<close>

record linear_probe =
  predict :: "real list \<Rightarrow> py_exn + nat"
  predict_proba :: "real list \<Rightarrow> py_exn + real list"
  classes :: "string list"

record service =
  bioclip_model :: bool
  bioclip_preprocess :: bool
  USE_LINEAR_PROBE :: bool
  classifier_data :: "linear_probe option"
  SEGMENTATION_MODEL :: string
  SEGMENTATION_PROMPT :: string

text \<open>
  The calls that leave main.py: reading the upload, decoding it with PIL, the four
  segmentation back ends and the BioCLIP forward pass. Each may raise, except the back
  ends that catch their own exceptions (\<open>segment_with_sam3_cloud\<close>, which returns a pair
  of a result and an error message, \<open>segment_with_sam2\<close> and \<open>segment_with_owlv2\<close>).
\<close>

record ('up, 'img) service_env =
  file_read :: "'up \<Rightarrow> py_exn + string"
  image_open_rgb :: "string \<Rightarrow> py_exn + 'img"
  sam3_cloud :: "'img \<Rightarrow> string \<Rightarrow> string \<Rightarrow> string \<Rightarrow> 'img option \<times> string option"
  evf :: "'img \<Rightarrow> string \<Rightarrow> py_exn + 'img option"
  sam2 :: "'img \<Rightarrow> 'img option"
  owlv2 :: "'img \<Rightarrow> string \<Rightarrow> 'img option"
  get_bioclip_embedding :: "'img \<Rightarrow> py_exn + real list"

text \<open>
  What an endpoint does besides answering, in order: it reads the upload, decodes it,
  segments an image, embeds an image, classifies an embedding, prints a line.
\<close>

datatype 'img event =
    Read
  | Decode
  | Segment 'img
  | Embed 'img
  | Classify "real list"
  | Print string

datatype http_exception = HTTPException nat string

record classification_response =
  estrus_stage :: string
  confidence_scores :: "string \<rightharpoonup> real"
  cropped :: bool

text \<open>\<open>segment_image\<close>: the result of the configured back end, and what it prints.\<close>

definition segment_image ::
  "service \<Rightarrow> ('up, 'img) service_env \<Rightarrow> 'img \<Rightarrow> (py_exn + 'img option) \<times> string list"
where
  "segment_image srv env img =
     (if SEGMENTATION_MODEL srv = ''sam3_cloud'' then
        (case sam3_cloud env img (SEGMENTATION_PROMPT srv) ''mask_crop'' ''black'' of
           (result, error) \<Rightarrow>
             (Inr result,
              (case error of
                 None \<Rightarrow> []
               | Some msg \<Rightarrow>
                   if msg = [] then [] else [''SAM3 cloud segmentation error: '' @ msg])))
      else if SEGMENTATION_MODEL srv = ''evf'' then (evf env img (SEGMENTATION_PROMPT srv), [])
      else if SEGMENTATION_MODEL srv = ''sam2'' then (Inr (sam2 env img), [])
      else if SEGMENTATION_MODEL srv = ''owlv2'' then
        (Inr (owlv2 env img (SEGMENTATION_PROMPT srv)), [])
      else (Inr None, []))"

text \<open>\<open>classify_with_linear_probe\<close>, with the loop that fills \<open>confidence_scores\<close>.\<close>

fun confidence_loop ::
  "string list \<Rightarrow> nat \<Rightarrow> real list \<Rightarrow> (string \<rightharpoonup> real) \<Rightarrow> py_exn + (string \<rightharpoonup> real)"
where
  "confidence_loop [] i probabilities conf = Inr conf"
| "confidence_loop (class_name # rest) i probabilities conf =
     (if i < length probabilities then
        confidence_loop rest (Suc i) probabilities
          (conf(capitalize class_name \<mapsto> probabilities ! i))
      else Inl (IndexError ''index out of bounds''))"

definition classify_with_linear_probe ::
  "linear_probe option \<Rightarrow> real list \<Rightarrow> py_exn + string \<times> (string \<rightharpoonup> real)"
where
  "classify_with_linear_probe data embedding =
     (case data of
        None \<Rightarrow> Inl (ValueError ''Classifier not loaded'')
      | Some clf \<Rightarrow>
         (case predict clf embedding of
            Inl e \<Rightarrow> Inl e
          | Inr prediction \<Rightarrow>
             (case predict_proba clf embedding of
                Inl e \<Rightarrow> Inl e
              | Inr probabilities \<Rightarrow>
                 if prediction < length (classes clf) then
                   (case confidence_loop (classes clf) 0 probabilities Map.empty of
                      Inl e \<Rightarrow> Inl e
                    | Inr conf \<Rightarrow> Inr (capitalize (classes clf ! prediction), conf))
                 else Inl (ValueError ''y contains previously unseen labels''))))"

text \<open>
  The first five statements of the \<open>try\<close> of both endpoints (lines 331 to 338 and 366 to
  374): read, decode, segment, keep the crop if there is one, embed. The result is
  whether the image was cropped and its embedding.
\<close>

definition embed_upload ::
  "service \<Rightarrow> ('up, 'img) service_env \<Rightarrow> 'up \<Rightarrow> (py_exn + bool \<times> real list) \<times> 'img event list"
where
  "embed_upload srv env file =
     (case file_read env file of
        Inl e \<Rightarrow> (Inl e, [Read])
      | Inr contents \<Rightarrow>
         (case image_open_rgb env contents of
            Inl e \<Rightarrow> (Inl e, [Read, Decode])
          | Inr img \<Rightarrow>
             (case segment_image srv env img of
                (Inl e, out) \<Rightarrow> (Inl e, [Read, Decode, Segment img] @ map Print out)
              | (Inr cropped_image, out) \<Rightarrow>
                 (let was_cropped = (cropped_image \<noteq> None);
                      img' = (case cropped_image of None \<Rightarrow> img | Some c \<Rightarrow> c);
                      events = [Read, Decode, Segment img] @ map Print out @ [Embed img']
                  in case get_bioclip_embedding env img' of
                       Inl e \<Rightarrow> (Inl e, events)
                     | Inr embedding \<Rightarrow> (Inr (was_cropped, embedding), events)))))"


text \<open>
  The \<open>try\<close> of \<open>POST /classify\<close>, and the endpoint with its three guards and its two
  handlers: a \<open>ValueError\<close> becomes status 503, any other exception is printed and becomes
  status 500.
\<close>

definition classify_upload ::
  "service \<Rightarrow> ('up, 'img) service_env \<Rightarrow> 'up
    \<Rightarrow> (py_exn + classification_response) \<times> 'img event list"
where
  "classify_upload srv env file =
     (case embed_upload srv env file of
        (Inl e, events) \<Rightarrow> (Inl e, events)
      | (Inr (was_cropped, embedding), events) \<Rightarrow>
         (case classify_with_linear_probe (classifier_data srv) embedding of
            Inl e \<Rightarrow> (Inl e, events @ [Classify embedding])
          | Inr (stage, conf) \<Rightarrow>
             (Inr \<lparr>estrus_stage = stage, confidence_scores = conf, cropped = was_cropped\<rparr>,
              events @ [Classify embedding])))"

definition classify_image ::
  "service \<Rightarrow> ('up, 'img) service_env \<Rightarrow> 'up
    \<Rightarrow> (http_exception + classification_response) \<times> 'img event list"
where
  "classify_image srv env file =
     (if \<not> bioclip_model srv \<or> \<not> bioclip_preprocess srv then
        (Inl (HTTPException 503 ''BioCLIP model not initialized''), [])
      else if \<not> USE_LINEAR_PROBE srv then
        (Inl (HTTPException 400
           ''Linear Probe disabled. Use /embed endpoint for k-NN classification.''), [])
      else if classifier_data srv = None then
        (Inl (HTTPException 503 ''Classifier not loaded. Run train_classifier.py first.''), [])
      else
        (case classify_upload srv env file of
           (Inl (ValueError msg), events) \<Rightarrow> (Inl (HTTPException 503 msg), events)
         | (Inl e, events) \<Rightarrow>
             (Inl (HTTPException 500 (''Error classifying image: '' @ exn_str e)),
              events @ [Print (''Classification error: '' @ exn_str e)])
         | (Inr response, events) \<Rightarrow> (Inr response, events)))"

section \<open>ingest.py: reference images into the vector store\<close>







section \<open>sam3\_cloud.py: the client of the segmentation endpoint\<close>

text \<open>Decimal notation, as \<open>str\<close> and f-strings print integers.\<close>

fun str_nat :: "nat \<Rightarrow> string" where
  "str_nat n =
     (if n < 10 then [char_of (48 + n)] else str_nat (n div 10) @ [char_of (48 + n mod 10)])"

declare str_nat.simps [simp del]

definition str_int :: "int \<Rightarrow> string" where
  "str_int i = (if i < 0 then CHR ''-'' # str_nat (nat (- i)) else str_nat (nat i))"

text \<open>\<open>sub in s\<close> for two strings.\<close>

definition contains_str :: "string \<Rightarrow> string \<Rightarrow> bool" where
  "contains_str s sub = list_ex (\<lambda>i. take (length sub) (drop i s) = sub) [0..<Suc (length s)]"

text \<open>
  A parsed JSON document, with the three operations the client applies to one: the
  membership test \<open>"image" in data\<close>, the subscript \<open>data["image"]\<close> and
  \<open>data.get('error', default)\<close>. Each raises on the values Python raises on.
\<close>

datatype jsonv =
    JObject "(string \<times> jsonv) list"
  | JArray "jsonv list"
  | JString string
  | JNumber int
  | JBool bool
  | JNull

fun py_in :: "string \<Rightarrow> jsonv \<Rightarrow> py_exn + bool" where
  "py_in key (JObject kvs) = Inr (key \<in> set (map fst kvs))"
| "py_in key (JArray vs) = Inr (JString key \<in> set vs)"
| "py_in key (JString s) = Inr (contains_str s key)"
| "py_in key (JNumber n) = Inl (Exception ''argument of type int is not iterable'')"
| "py_in key (JBool b) = Inl (Exception ''argument of type bool is not iterable'')"
| "py_in key JNull = Inl (Exception ''argument of type NoneType is not iterable'')"

fun py_getitem :: "jsonv \<Rightarrow> string \<Rightarrow> py_exn + jsonv" where
  "py_getitem (JObject kvs) key =
     (case map_of kvs key of None \<Rightarrow> Inl (KeyError key) | Some v \<Rightarrow> Inr v)"
| "py_getitem (JArray vs) key = Inl (Exception ''list indices must be integers or slices, not str'')"
| "py_getitem (JString s) key = Inl (Exception ''string indices must be integers, not str'')"
| "py_getitem v key = Inl (Exception ''object is not subscriptable'')"

fun py_get :: "jsonv \<Rightarrow> string \<Rightarrow> jsonv \<Rightarrow> py_exn + jsonv" where
  "py_get (JObject kvs) key dflt =
     (case map_of kvs key of None \<Rightarrow> Inr dflt | Some v \<Rightarrow> Inr v)"
| "py_get v key dflt = Inl (Exception ''object has no attribute get'')"

record http_response =
  status_code :: nat
  resp_content :: string
  resp_text :: string
  resp_json :: "py_exn + jsonv"

record post_request =
  req_url :: string
  req_authorization :: string
  req_content_type :: string
  req_inputs :: string
  req_prompt :: string
  req_bg_mode :: string
  req_bg_color :: string
  req_timeout :: int

text \<open>
  The configuration read from the environment, and the library calls of the client:
  \<open>Image.save\<close> as JPEG into a buffer, base64 in both directions, \<open>requests.post\<close>,
  \<open>Image.open\<close> on bytes and \<open>str\<close> of a JSON value.
\<close>

record 'img sam3_env =
  SAM3_ENDPOINT_URL :: "string option"
  HF_TOKEN :: "string option"
  save_jpeg :: "'img \<Rightarrow> py_exn + string"
  b64encode :: "string \<Rightarrow> string"
  b64decode :: "jsonv \<Rightarrow> py_exn + string"
  requests_post :: "post_request \<Rightarrow> py_exn + http_response"
  open_bytes :: "string \<Rightarrow> py_exn + 'img"
  py_str :: "jsonv \<Rightarrow> string"

text \<open>\<open>not x\<close> for an optional string: it is \<open>None\<close> or empty.\<close>

definition falsy :: "string option \<Rightarrow> bool" where
  "falsy x = (case x of None \<Rightarrow> True | Some s \<Rightarrow> s = [])"

text \<open>
  Lines 99 to 106: the second attempt at a response with status 200, as JSON that carries
  a base64 image. An exception here is caught by the handler of line 107.
\<close>

definition parse_json_image ::
  "'img sam3_env \<Rightarrow> http_response \<Rightarrow> py_exn + 'img option \<times> string option"
where
  "parse_json_image env response =
     (case resp_json response of
        Inl e \<Rightarrow> Inl e
      | Inr data \<Rightarrow>
         (case py_in ''image'' data of
            Inl e \<Rightarrow> Inl e
          | Inr has_image \<Rightarrow>
             if has_image then
               (case py_getitem data ''image'' of
                  Inl e \<Rightarrow> Inl e
                | Inr v \<Rightarrow>
                   (case b64decode env v of
                      Inl e \<Rightarrow> Inl e
                    | Inr img_data \<Rightarrow>
                       (case open_bytes env img_data of
                          Inl e \<Rightarrow> Inl e
                        | Inr result_image \<Rightarrow> Inr (Some result_image, None))))
             else Inr (None, Some (''Unexpected response format: '' @ py_str env data))))"

text \<open>Lines 92 to 121: what is returned for a response.\<close>

definition handle_response ::
  "'img sam3_env \<Rightarrow> http_response \<Rightarrow> 'img option \<times> string option"
where
  "handle_response env response =
     (if status_code response = 200 then
        (case open_bytes env (resp_content response) of
           Inr result_image \<Rightarrow> (Some result_image, None)
         | Inl e \<Rightarrow>
            (case parse_json_image env response of
               Inr r \<Rightarrow> r
             | Inl e' \<Rightarrow> (None, Some (''Failed to parse response: '' @ exn_str e))))
      else if status_code response = 503 then
        (None, Some ''SAM3 endpoint is still initializing'')
      else if status_code response = 404 then
        (None, Some ''No segmentation mask found for the given prompt'')
      else
        (case (case resp_json response of
                 Inl e \<Rightarrow> Inl e
               | Inr error_data \<Rightarrow> py_get error_data ''error'' (JString ''Unknown error'')) of
           Inr msg \<Rightarrow>
             (None, Some (''SAM3 error ('' @ str_nat (status_code response) @ ''): ''
                          @ py_str env msg))
         | Inl e \<Rightarrow>
             (None, Some (''SAM3 error ('' @ str_nat (status_code response) @ ''): ''
                          @ take 200 (resp_text response)))))"

text \<open>
  The body of the outer \<open>try\<close>, lines 68 to 121, with the requests it has posted. The URL
  and the token are known to be set when it runs.
\<close>

definition sam3_request ::
  "'img sam3_env \<Rightarrow> string \<Rightarrow> string \<Rightarrow> string \<Rightarrow> string \<Rightarrow> int \<Rightarrow> post_request"
where
  "sam3_request env img_base64 prompt bg_mode bg_color timeout =
     \<lparr>req_url = the (SAM3_ENDPOINT_URL env),
      req_authorization = ''Bearer '' @ the (HF_TOKEN env),
      req_content_type = ''application/json'',
      req_inputs = img_base64,
      req_prompt = prompt, req_bg_mode = bg_mode, req_bg_color = bg_color,
      req_timeout = timeout\<rparr>"

definition sam3_try ::
  "'img sam3_env \<Rightarrow> 'img \<Rightarrow> string \<Rightarrow> string \<Rightarrow> string \<Rightarrow> int
    \<Rightarrow> (py_exn + 'img option \<times> string option) \<times> post_request list"
where
  "sam3_try env img prompt bg_mode bg_color timeout =
     (case save_jpeg env img of
        Inl e \<Rightarrow> (Inl e, [])
      | Inr img_bytes \<Rightarrow>
         (let img_base64 = b64encode env img_bytes;
              request = sam3_request env img_base64 prompt bg_mode bg_color timeout in
          case requests_post env request of
            Inl e \<Rightarrow> (Inl e, [request])
          | Inr response \<Rightarrow> (Inr (handle_response env response), [request])))"

text \<open>
  \<open>segment_with_sam3_cloud\<close>: the two checks of the configuration, the \<open>try\<close> and its three
  handlers. The result is what the call returns or raises, and the requests it has posted.
\<close>

definition segment_with_sam3_cloud ::
  "'img sam3_env \<Rightarrow> 'img \<Rightarrow> string \<Rightarrow> string \<Rightarrow> string \<Rightarrow> int
    \<Rightarrow> (py_exn + 'img option \<times> string option) \<times> post_request list"
where
  "segment_with_sam3_cloud env img prompt bg_mode bg_color timeout =
     (if falsy (SAM3_ENDPOINT_URL env) then
        (Inr (None, Some ''SAM3_ENDPOINT_URL not configured''), [])
      else if falsy (HF_TOKEN env) then
        (Inr (None, Some ''HF_TOKEN not configured''), [])
      else
        (case sam3_try env img prompt bg_mode bg_color timeout of
           (Inr r, posted) \<Rightarrow> (Inr r, posted)
         | (Inl (RequestsTimeout m), posted) \<Rightarrow>
             (Inr (None, Some (''SAM3 request timed out after '' @ str_int timeout @ ''s'')),
              posted)
         | (Inl (RequestsConnectionError m), posted) \<Rightarrow>
             (Inr (None, Some ''Failed to connect to SAM3 endpoint''), posted)
         | (Inl e, posted) \<Rightarrow>
             (Inr (None, Some (''SAM3 request failed: '' @ exn_str e)), posted)))"

section \<open>eval.py, train\_classifier.py, sam3\_modal.py: the classifiers\<close>

text \<open>
  The calls that leave the repository when a classifier is trained or applied: a method
  of scikit-learn, or a remote procedure of the Supabase database.
\<close>

datatype library_call = Sklearn string | SupabaseRpc string










text \<open>
  The methods of scikit-learn that \<open>train_classifier\<close> (train\_classifier.py) and
  \<open>evaluate_method\<close> (in \<open>run_comparison_eval\<close> of sam3\_modal.py) call. Each may raise, and
  neither function catches anything.
\<close>

record ('clf, 'knn) sklearn =
  label_fit_transform :: "string list \<Rightarrow> py_exn + nat list"
  label_transform :: "string list \<Rightarrow> py_exn + nat list"
  logreg_fit :: "real list list \<Rightarrow> nat list \<Rightarrow> py_exn + 'clf"
  logreg_score :: "'clf \<Rightarrow> real list list \<Rightarrow> nat list \<Rightarrow> py_exn + real"
  logreg_predict :: "'clf \<Rightarrow> real list list \<Rightarrow> py_exn + nat list"
  knn_fit :: "real list list \<Rightarrow> nat list \<Rightarrow> py_exn + 'knn"
  knn_predict :: "'knn \<Rightarrow> real list list \<Rightarrow> py_exn + nat list"
  accuracy_score :: "nat list \<Rightarrow> nat list \<Rightarrow> py_exn + real"

definition train_classifier ::
  "('clf, 'knn) sklearn \<Rightarrow> real list list \<Rightarrow> string list
    \<Rightarrow> (py_exn + 'clf) \<times> library_call list"
where
  "train_classifier sk X y =
     (case label_fit_transform sk y of
        Inl e \<Rightarrow> (Inl e, [Sklearn ''LabelEncoder.fit_transform''])
      | Inr y_encoded \<Rightarrow>
         (case logreg_fit sk X y_encoded of
            Inl e \<Rightarrow>
              (Inl e, [Sklearn ''LabelEncoder.fit_transform'', Sklearn ''LogisticRegression.fit''])
          | Inr classifier \<Rightarrow>
             (case logreg_score sk classifier X y_encoded of
                Inl e \<Rightarrow>
                  (Inl e, [Sklearn ''LabelEncoder.fit_transform'',
                           Sklearn ''LogisticRegression.fit'',
                           Sklearn ''LogisticRegression.score''])
              | Inr train_accuracy \<Rightarrow>
                  (Inr classifier, [Sklearn ''LabelEncoder.fit_transform'',
                                    Sklearn ''LogisticRegression.fit'',
                                    Sklearn ''LogisticRegression.score'']))))"


section \<open>split\_data.py: the train and test split\<close>

text \<open>
  \<open>int(x)\<close> of a float truncates towards zero. Floats are modelled by the reals they
  denote (not-a-number and the infinities, on which \<open>int\<close> raises, are left out), and the
  floating-point product of the source is a parameter \<open>fmul\<close> of the functions below, so
  that nothing depends on how it rounds.
\<close>

definition py_int :: "real \<Rightarrow> int" where
  "py_int x = (if 0 \<le> x then \<lfloor>x\<rfloor> else \<lceil>x\<rceil>)"

text \<open>
  The slices \<open>xs[:k]\<close> and \<open>xs[k:]\<close>: a negative index counts from the end, and an index out
  of range is clipped.
\<close>

definition slice_index :: "'a list \<Rightarrow> int \<Rightarrow> nat" where
  "slice_index xs k =
     (if k < 0 then nat (max 0 (int (length xs) + k)) else nat (min k (int (length xs))))"

definition slice_to :: "'a list \<Rightarrow> int \<Rightarrow> 'a list" where
  "slice_to xs k = take (slice_index xs k) xs"

definition slice_from :: "'a list \<Rightarrow> int \<Rightarrow> 'a list" where
  "slice_from xs k = drop (slice_index xs k) xs"

text \<open>
  The file system as the script sees it: the directories that exist and the copies made,
  each a source path and a destination path, in order. \<open>shutil.copy2\<close> raises when the
  directory of the destination does not exist; other failures of the file system are not
  modelled. File names come from \<open>os.listdir\<close> and contain no separator.
\<close>

record split_fs =
  dirs :: "string set"
  copies :: "(string \<times> string) list"


definition copy2 :: "string \<Rightarrow> string \<Rightarrow> string \<Rightarrow> split_fs \<Rightarrow> py_exn + split_fs" where
  "copy2 src_path dst_dir fname fs =
     (if dst_dir \<in> dirs fs then
        Inr (fs\<lparr>copies := copies fs @ [(src_path, os_path_join dst_dir fname)]\<rparr>)
      else Inl (Exception (''No such file or directory: '' @ os_path_join dst_dir fname)))"


text \<open>
  Lines 68 to 71: shuffle, cut at \<open>int(len(items) * split_ratio)\<close>. \<open>shuffle\<close> is
  \<open>random.shuffle\<close>, with the state of the generator.
\<close>

definition split_items ::
  "('g \<Rightarrow> (string \<times> string) list \<Rightarrow> (string \<times> string) list \<times> 'g) \<Rightarrow> (real \<Rightarrow> real \<Rightarrow> real)
    \<Rightarrow> real \<Rightarrow> 'g \<Rightarrow> (string \<times> string) list
    \<Rightarrow> (string \<times> string) list \<times> (string \<times> string) list \<times> 'g"
where
  "split_items shuffle fmul split_ratio g items =
     (case shuffle g items of
        (items, g') \<Rightarrow>
          (let split_idx = py_int (fmul (real (length items)) split_ratio);
               train_items = slice_to items split_idx;
               test_items = slice_from items split_idx
           in (train_items, test_items, g')))"

text \<open>Lines 73 to 77: the two loops that copy; the first copy that raises ends the run.\<close>

fun copy_items :: "string \<Rightarrow> (string \<times> string) list \<Rightarrow> split_fs \<Rightarrow> py_exn + split_fs" where
  "copy_items dst_dir [] fs = Inr fs"
| "copy_items dst_dir ((fname, src_path) # items) fs =
     (case copy2 src_path dst_dir fname fs of
        Inl e \<Rightarrow> Inl e
      | Inr fs' \<Rightarrow> copy_items dst_dir items fs')"

definition split_label ::
  "('g \<Rightarrow> (string \<times> string) list \<Rightarrow> (string \<times> string) list \<times> 'g) \<Rightarrow> (real \<Rightarrow> real \<Rightarrow> real)
    \<Rightarrow> string \<Rightarrow> string \<Rightarrow> real \<Rightarrow> string \<times> (string \<times> string) list \<Rightarrow> 'g \<times> split_fs
    \<Rightarrow> py_exn + 'g \<times> split_fs"
where
  "split_label shuffle fmul train_dir test_dir split_ratio entry state =
     (case entry of (label, items) \<Rightarrow>
      case state of (g, fs) \<Rightarrow>
      case split_items shuffle fmul split_ratio g items of
        (train_items, test_items, g') \<Rightarrow>
          (case copy_items (os_path_join train_dir label) train_items fs of
             Inl e \<Rightarrow> Inl e
           | Inr fs' \<Rightarrow>
              (case copy_items (os_path_join test_dir label) test_items fs' of
                 Inl e \<Rightarrow> Inl e
               | Inr fs'' \<Rightarrow> Inr (g', fs''))))"



section \<open>unpack\_zips.py: archives to JPEG files\<close>













section \<open>Example inputs\<close>

text \<open>
  Concrete environments at which the theorems below are instantiated. Images are
  represented by strings that say where they come from.
\<close>

definition example_probe :: linear_probe where
  "example_probe =
     \<lparr>predict = (\<lambda>embedding. Inr 1),
      predict_proba = (\<lambda>embedding. Inr [1 / 4, 3 / 4]),
      classes = [''DIESTRUS'', ''ESTRUS'']\<rparr>"

definition example_service :: service where
  "example_service =
     \<lparr>bioclip_model = True, bioclip_preprocess = True, USE_LINEAR_PROBE = True,
      classifier_data = Some example_probe, SEGMENTATION_MODEL = ''owlv2'',
      SEGMENTATION_PROMPT = ''mouse genitalia''\<rparr>"

definition example_service_env :: "(unit, string) service_env" where
  "example_service_env =
     \<lparr>file_read = (\<lambda>file. Inr ''bytes''),
      image_open_rgb = (\<lambda>contents. Inr (''image of '' @ contents)),
      sam3_cloud = (\<lambda>img prompt bg_mode bg_color.
         (None, Some ''SAM3 endpoint is still initializing'')),
      evf = (\<lambda>img prompt. Inl (Exception ''No module named evf_sam_wrapper'')),
      sam2 = (\<lambda>img. None),
      owlv2 = (\<lambda>img prompt. Some (''crop of '' @ img)),
      get_bioclip_embedding = (\<lambda>img. Inr [3 / 5, 4 / 5])\<rparr>"



definition example_sam3_env :: "string sam3_env" where
  "example_sam3_env =
     \<lparr>SAM3_ENDPOINT_URL = Some ''https://sam3.example/'',
      HF_TOKEN = Some ''hf_token'',
      save_jpeg = (\<lambda>img. Inr (''jpeg of '' @ img)),
      b64encode = (\<lambda>bytes. ''base64 of '' @ bytes),
      b64decode = (\<lambda>v. Inl (Exception ''Incorrect padding'')),
      requests_post = (\<lambda>request.
         if req_prompt request = ''timeout'' then Inl (RequestsTimeout ''Read timed out.'')
         else if req_prompt request = ''offline'' then
           Inl (RequestsConnectionError ''Connection refused'')
         else if req_prompt request = ''error'' then
           Inr \<lparr>status_code = 500, resp_content = ''{error: CUDA out of memory}'',
                resp_text = ''{error: CUDA out of memory}'',
                resp_json = Inr (JObject [(''error'', JString ''CUDA out of memory'')])\<rparr>
         else if req_prompt request = ''garbled'' then
           Inr \<lparr>status_code = 200, resp_content = ''garbled'', resp_text = ''garbled'',
                resp_json = Inl (Exception ''Expecting value'')\<rparr>
         else
           Inr \<lparr>status_code = 200, resp_content = ''png'', resp_text = ''png'',
                resp_json = Inl (Exception ''Expecting value'')\<rparr>),
      open_bytes = (\<lambda>bytes.
         if bytes = ''png'' then Inr ''segmented image''
         else Inl (Exception ''cannot identify image file'')),
      py_str = (\<lambda>v. case v of JString s \<Rightarrow> s | _ \<Rightarrow> ''json'')\<rparr>"






section \<open>Properties of the string functions\<close>

lemma split_char_nonempty: "split_char sep s \<noteq> []"
  by (induction s) (auto split: list.splits)

lemma join_split_char: "join_char sep (split_char sep s) = s"
proof (induction s)
  case Nil
  show ?case by simp
next
  case (Cons c cs)
  obtain p ps where ps: "split_char sep cs = p # ps"
    using split_char_nonempty [of sep cs] by (cases "split_char sep cs") auto
  show ?case
  proof (cases "c = sep")
    case True
    with Cons ps show ?thesis by simp
  next
    case False
    with Cons ps show ?thesis by (cases ps) auto
  qed
qed

lemma split_char_no_sep: "p \<in> set (split_char sep s) \<Longrightarrow> sep \<notin> set p"
proof (induction s arbitrary: p)
  case Nil
  then show ?case by simp
next
  case (Cons c cs)
  then show ?case
    by (cases "split_char sep cs") (auto split: if_splits)
qed

lemma join_parts_subset: "p \<in> set ps \<Longrightarrow> set p \<subseteq> set (join_char sep ps)"
  by (induction sep ps rule: join_char.induct) auto

lemma replace_char_absent: "old \<noteq> new \<Longrightarrow> old \<notin> set (replace_char old new s)"
  by (auto simp: replace_char_def)

section \<open>Properties of the crop boxes\<close>

lemma sorted_le_last: "sorted (xs :: nat list) \<Longrightarrow> i \<in> set xs \<Longrightarrow> i \<le> last xs"
  by (induction xs) auto

lemma where_filter_props:
  assumes "np_any bs"
  shows "\<exists>lo hi. first_last (np_where bs) = Inr (int lo, int hi)
           \<and> lo \<le> hi \<and> hi < length bs \<and> bs ! lo \<and> bs ! hi
           \<and> (\<forall>i < length bs. bs ! i \<longrightarrow> lo \<le> i \<and> i \<le> hi)"
proof -
  define xs where "xs = filter (\<lambda>i. bs ! i) [0..<length bs]"
  have mem: "\<And>i. i \<in> set xs \<longleftrightarrow> i < length bs \<and> bs ! i"
    by (auto simp: xs_def)
  from assms obtain k where k: "k < length bs" "bs ! k"
    by (auto simp: np_any_def list_ex_iff in_set_conv_nth)
  then have "k \<in> set xs"
    by (simp add: mem)
  then have ne: "xs \<noteq> []"
    by auto
  have srt: "sorted xs"
    unfolding xs_def by (rule sorted_wrt_filter) simp
  obtain x rest where xs_cons: "xs = x # rest"
    using ne by (cases xs) auto
  have lo_least: "\<And>i. i \<in> set xs \<Longrightarrow> x \<le> i"
    using srt unfolding xs_cons by auto
  have hi_greatest: "\<And>i. i \<in> set xs \<Longrightarrow> i \<le> last xs"
    using srt by (rule sorted_le_last)
  have x_in: "x \<in> set xs" unfolding xs_cons by simp
  have last_in: "last xs \<in> set xs" using ne by simp
  have nw: "np_where bs = map int xs"
    by (simp add: np_where_def xs_def)
  have lm: "last (map int xs) = int (last xs)"
    using ne by (rule last_map)
  have "first_last (map int xs) = Inr (int x, last (map int xs))"
    unfolding first_last_def xs_cons by simp
  then have fl: "first_last (np_where bs) = Inr (int x, int (last xs))"
    by (simp only: nw lm)
  have "x \<le> last xs" using lo_least last_in by blast
  moreover have "last xs < length bs" "bs ! x" "bs ! last xs"
    using x_in last_in mem by blast+
  moreover have "\<forall>i < length bs. bs ! i \<longrightarrow> x \<le> i \<and> i \<le> last xs"
    using lo_least hi_greatest mem by blast
  ultimately show ?thesis
    using fl by blast
qed


lemma any_axis1_iff: "np_any (any_axis1 m) \<longleftrightarrow> (\<exists>row \<in> set m. True \<in> set row)"
  by (auto simp: np_any_def any_axis1_def list_ex_iff)

lemma any_axis1_nth: "i < length m \<Longrightarrow> any_axis1 m ! i \<longleftrightarrow> True \<in> set (m ! i)"
  by (auto simp: np_any_def any_axis1_def list_ex_iff)

lemma mask_width_rect:
  "\<forall>row \<in> set m. int (length row) = w \<Longrightarrow> m \<noteq> [] \<Longrightarrow> mask_width m = nat w"
  by (cases m) (auto simp: mask_width_def)

lemma any_axis0_nth:
  assumes "\<forall>row \<in> set m. int (length row) = w" and "j < nat w" and "m \<noteq> []"
  shows "any_axis0 m ! j \<longleftrightarrow> (\<exists>i < length m. m ! i ! j)"
proof -
  have len: "\<And>row. row \<in> set m \<Longrightarrow> j < length row"
    using assms(1,2) by auto
  have mw: "mask_width m = nat w"
    using assms(1,3) by (rule mask_width_rect)
  have "any_axis0 m ! j \<longleftrightarrow> (\<exists>row \<in> set m. j < length row \<and> row ! j)"
    using assms(2) by (simp add: any_axis0_def mw list_ex_iff)
  also have "\<dots> \<longleftrightarrow> (\<exists>row \<in> set m. row ! j)"
    using len by blast
  also have "\<dots> \<longleftrightarrow> (\<exists>i < length m. m ! i ! j)"
    by (metis in_set_conv_nth)
  finally show ?thesis .
qed

lemma any_axis0_iff:
  assumes "\<forall>row \<in> set m. int (length row) = w" and "\<exists>row \<in> set m. True \<in> set row"
  shows "np_any (any_axis0 m)"
proof -
  from assms(2) obtain row where row: "row \<in> set m" "True \<in> set row" by blast
  then obtain j where j: "j < length row" "row ! j"
    by (metis in_set_conv_nth)
  have ne: "m \<noteq> []" using row by auto
  have jw: "j < nat w" using assms(1) row(1) j(1) by auto
  obtain i where "i < length m" "m ! i = row"
    using row(1) by (metis in_set_conv_nth)
  then have "any_axis0 m ! j"
    using any_axis0_nth [OF assms(1) jw ne] j(2) by blast
  moreover have "j < length (any_axis0 m)"
    using jw mask_width_rect [OF assms(1) ne] by (simp add: any_axis0_def)
  ultimately show ?thesis
    unfolding np_any_def list_ex_iff by (metis nth_mem)
qed

lemma mask_crop_characterisation:
  assumes hgt: "int (length m) = h"
      and wid: "\<forall>row \<in> set m. int (length row) = w"
      and nonempty: "\<exists>row \<in> set m. True \<in> set row"
  shows "\<exists>ylo yhi xlo xhi.
      ylo \<le> yhi \<and> int yhi < h \<and> xlo \<le> xhi \<and> int xhi < w
    \<and> True \<in> set (m ! ylo) \<and> True \<in> set (m ! yhi)
    \<and> (\<forall>i < length m. True \<in> set (m ! i) \<longrightarrow> ylo \<le> i \<and> i \<le> yhi)
    \<and> (\<exists>i < length m. m ! i ! xlo) \<and> (\<exists>i < length m. m ! i ! xhi)
    \<and> (\<forall>i < length m. \<forall>j < nat w. m ! i ! j \<longrightarrow> xlo \<le> j \<and> j \<le> xhi)
    \<and> (\<forall>crop img. mask_crop crop img w h m =
          (case crop img (max 0 (int xlo - 20), max 0 (int ylo - 20),
                          min w (int xhi + 20), min h (int yhi + 20)) of
             Inl e \<Rightarrow> Inl e
           | Inr region \<Rightarrow> Inr (Some region)))"
proof -
  have ne: "m \<noteq> []" using nonempty by auto
  have rows_any: "np_any (any_axis1 m)"
    using nonempty by (simp add: any_axis1_iff)
  have cols_any: "np_any (any_axis0 m)"
    using wid nonempty by (rule any_axis0_iff)
  have len1: "length (any_axis1 m) = length m"
    by (simp add: any_axis1_def)
  have len0: "length (any_axis0 m) = nat w"
    using mask_width_rect [OF wid ne] by (simp add: any_axis0_def)
  from where_filter_props [OF rows_any] obtain ylo yhi where
    y: "first_last (np_where (any_axis1 m)) = Inr (int ylo, int yhi)"
       "ylo \<le> yhi" "yhi < length (any_axis1 m)" "any_axis1 m ! ylo" "any_axis1 m ! yhi"
       "\<forall>i < length (any_axis1 m). any_axis1 m ! i \<longrightarrow> ylo \<le> i \<and> i \<le> yhi"
    by blast
  from where_filter_props [OF cols_any] obtain xlo xhi where
    x: "first_last (np_where (any_axis0 m)) = Inr (int xlo, int xhi)"
       "xlo \<le> xhi" "xhi < length (any_axis0 m)" "any_axis0 m ! xlo" "any_axis0 m ! xhi"
       "\<forall>i < length (any_axis0 m). any_axis0 m ! i \<longrightarrow> xlo \<le> i \<and> i \<le> xhi"
    by blast
  have yhi_lt: "yhi < length m" using y(3) len1 by simp
  have ylo_lt: "ylo < length m" using y(2) yhi_lt by simp
  have xhi_lt: "xhi < nat w" using x(3) len0 by simp
  have xlo_lt: "xlo < nat w" using x(2) xhi_lt by simp
  have c1: "ylo \<le> yhi" by (rule y(2))
  have c2: "int yhi < h" using yhi_lt hgt by simp
  have c3: "xlo \<le> xhi" by (rule x(2))
  have c4: "int xhi < w" using xhi_lt by simp
  have c5: "True \<in> set (m ! ylo)" using y(4) ylo_lt by (simp add: any_axis1_nth)
  have c6: "True \<in> set (m ! yhi)" using y(5) yhi_lt by (simp add: any_axis1_nth)
  have c7: "\<forall>i < length m. True \<in> set (m ! i) \<longrightarrow> ylo \<le> i \<and> i \<le> yhi"
    using y(6) len1 by (simp add: any_axis1_nth)
  have c8: "\<exists>i < length m. m ! i ! xlo"
    using x(4) any_axis0_nth [OF wid xlo_lt ne] by simp
  have c9: "\<exists>i < length m. m ! i ! xhi"
    using x(5) any_axis0_nth [OF wid xhi_lt ne] by simp
  have c10: "\<forall>i < length m. \<forall>j < nat w. m ! i ! j \<longrightarrow> xlo \<le> j \<and> j \<le> xhi"
  proof (intro allI impI)
    fix i j assume ij: "i < length m" "j < nat w" "m ! i ! j"
    then have "any_axis0 m ! j"
      using any_axis0_nth [OF wid ij(2) ne] by blast
    then show "xlo \<le> j \<and> j \<le> xhi"
      using x(6) len0 ij(2) by simp
  qed
  have c11: "\<forall>crop img. mask_crop crop img w h m =
          (case crop img (max 0 (int xlo - 20), max 0 (int ylo - 20),
                          min w (int xhi + 20), min h (int yhi + 20)) of
             Inl e \<Rightarrow> Inl e
           | Inr region \<Rightarrow> Inr (Some region))"
    using rows_any cols_any y(1) x(1)
    by (simp add: mask_crop_def pad_box_def Let_def)
  from c1 c2 c3 c4 c5 c6 c7 c8 c9 c10 c11 show ?thesis by blast
qed

lemma pad_box_inside:
  fixes w h :: "'a::linordered_idom"
  assumes "0 \<le> w" "0 \<le> h" "xmin \<le> xmax" "ymin \<le> ymax"
      and "xmin - 20 \<le> w" "0 \<le> xmax + 20" "ymin - 20 \<le> h" "0 \<le> ymax + 20"
  shows "case pad_box w h (xmin, ymin, xmax, ymax) of (x0, y0, x1, y1) \<Rightarrow>
           0 \<le> x0 \<and> x0 \<le> x1 \<and> x1 \<le> w \<and> 0 \<le> y0 \<and> y0 \<le> y1 \<and> y1 \<le> h"
proof -
  have "xmin - 20 \<le> xmax + 20" "ymin - 20 \<le> ymax + 20"
    using assms(3,4) by (simp_all add: add_increasing2 diff_le_eq add.assoc)
  then show ?thesis
    using assms by (simp add: pad_box_def Let_def)
qed

section \<open>Properties of the loops and of the endpoints\<close>











section \<open>Properties of the segmentation client\<close>

lemma parse_json_image_exclusive:
  "parse_json_image env response = Inr (result, error) \<Longrightarrow> (result = None \<longleftrightarrow> error \<noteq> None)"
  by (auto simp: parse_json_image_def split: sum.splits if_splits)

lemma handle_response_exclusive:
  "handle_response env response = (result, error) \<Longrightarrow> (result = None \<longleftrightarrow> error \<noteq> None)"
  by (auto simp: handle_response_def split: sum.splits if_splits
      dest: parse_json_image_exclusive)

lemma handle_response_not_200:
  "status_code response \<noteq> 200 \<Longrightarrow> \<exists>msg. handle_response env response = (None, Some msg)"
  by (auto simp: handle_response_def split: sum.splits)

lemma sam3_try_posts: "length (snd (sam3_try env img prompt bg_mode bg_color timeout)) \<le> 1"
  by (simp add: sam3_try_def Let_def split: sum.splits)

lemma sam3_try_exclusive:
  "fst (sam3_try env img prompt bg_mode bg_color timeout) = Inr (result, error)
   \<Longrightarrow> (result = None \<longleftrightarrow> error \<noteq> None)"
  by (auto simp: sam3_try_def Let_def split: sum.splits dest: handle_response_exclusive)

lemma segment_with_sam3_cloud_posts:
  "length (snd (segment_with_sam3_cloud env img prompt bg_mode bg_color timeout)) \<le> 1"
  using sam3_try_posts [of env img prompt bg_mode bg_color timeout]
  by (auto simp: segment_with_sam3_cloud_def split: prod.splits sum.splits py_exn.splits)

lemma segment_with_sam3_cloud_returns:
  "\<exists>result error.
      fst (segment_with_sam3_cloud env img prompt bg_mode bg_color timeout) = Inr (result, error)
    \<and> (result = None \<longleftrightarrow> error \<noteq> None)"
proof (cases "sam3_try env img prompt bg_mode bg_color timeout")
  case (Pair r posted)
  show ?thesis
  proof (cases r)
    case (Inl e)
    with Pair show ?thesis
      by (cases e) (simp_all add: segment_with_sam3_cloud_def)
  next
    case (Inr p)
    obtain result error where p: "p = (result, error)" by (cases p)
    have "result = None \<longleftrightarrow> error \<noteq> None"
      using sam3_try_exclusive [of env img prompt bg_mode bg_color timeout result error]
        Pair Inr p by simp
    with Pair Inr p show ?thesis
      by (simp add: segment_with_sam3_cloud_def)
  qed
qed


section \<open>Properties of the vote\<close>











section \<open>Properties of the split\<close>








lemma split_label_dirs:
  assumes "split_label shuffle fmul train_dir test_dir r entry (g, fs) = Inr (g', fs')"
  shows "dirs fs' = dirs fs"
proof -
  have c: "\<And>d items fs fs'. copy_items d items fs = Inr fs' \<Longrightarrow> dirs fs' = dirs fs"
  proof -
    fix d items fs fs'
    show "copy_items d items fs = Inr fs' \<Longrightarrow> dirs fs' = dirs fs"
      by (induction items arbitrary: fs)
         (auto simp: copy2_def split: sum.splits if_splits prod.splits)
  qed
  from assms show ?thesis
    by (auto simp: split_label_def split: prod.splits sum.splits dest!: c)
qed





section \<open>Properties of the conversion\<close>








section \<open>Properties of parse\_label\<close>

lemma parse_parts_range:
  "parse_parts up parts \<in> set valid_stages \<union> {''UNKNOWN''}"
  by (induction parts) (auto simp: Let_def)

lemma parse_parts_none:
  "\<forall>p \<in> set parts. (if up p = ''PROESTTRUS'' then ''PROESTRUS'' else up p) \<notin> set valid_stages
   \<Longrightarrow> parse_parts up parts = ''UNKNOWN''"
  by (induction parts) (auto simp: Let_def)

lemma parse_parts_first:
  "\<forall>q \<in> set pre. (if up q = ''PROESTTRUS'' then ''PROESTRUS'' else up q) \<notin> set valid_stages
   \<Longrightarrow> (if up p = ''PROESTTRUS'' then ''PROESTRUS'' else up p) \<in> set valid_stages
   \<Longrightarrow> parse_parts up (pre @ p # post) = (if up p = ''PROESTTRUS'' then ''PROESTRUS'' else up p)"
  by (induction pre) (auto simp: Let_def)

text \<open>
  C8. For every file name, \<open>parse_label\<close> returns one of PROESTRUS, ESTRUS, METESTRUS,
  DIESTRUS or UNKNOWN. The parts it looks at are the pieces of the name between underscores
  and dots (joined by underscores they give the name back with its dots replaced, and no
  part contains an underscore or a dot). It returns the upper-cased form of the first part
  whose upper-cased form, with PROESTTRUS read as PROESTRUS, is a valid stage, and UNKNOWN
  when no part is one. This holds for every case mapping \<open>up\<close>, in particular for
  \<^const>\<open>upper\<close>, for which \<open>parse_label_with\<close> is \<open>parse_label\<close>.
\<close>

theorem parse_label_result:
  "parse_label_with up filename \<in> {''PROESTRUS'', ''ESTRUS'', ''METESTRUS'', ''DIESTRUS'', ''UNKNOWN''}
   \<and> join_char CHR ''_'' (label_parts filename) = replace_char CHR ''.'' CHR ''_'' filename
   \<and> (\<forall>p \<in> set (label_parts filename). CHR ''_'' \<notin> set p \<and> CHR ''.'' \<notin> set p)
   \<and> ((\<forall>p \<in> set (label_parts filename).
          (if up p = ''PROESTTRUS'' then ''PROESTRUS'' else up p) \<notin> set valid_stages)
        \<longrightarrow> parse_label_with up filename = ''UNKNOWN'')
   \<and> (label_parts filename = pre @ p # post
        \<and> (\<forall>q \<in> set pre.
              (if up q = ''PROESTTRUS'' then ''PROESTRUS'' else up q) \<notin> set valid_stages)
        \<and> (if up p = ''PROESTTRUS'' then ''PROESTRUS'' else up p) \<in> set valid_stages
        \<longrightarrow> parse_label_with up filename
              = (if up p = ''PROESTTRUS'' then ''PROESTRUS'' else up p))"
proof -
  have range: "parse_label_with up filename
      \<in> {''PROESTRUS'', ''ESTRUS'', ''METESTRUS'', ''DIESTRUS'', ''UNKNOWN''}"
    using parse_parts_range [of up "label_parts filename"]
    by (auto simp: parse_label_with_def valid_stages_def)
  have joined: "join_char CHR ''_'' (label_parts filename)
      = replace_char CHR ''.'' CHR ''_'' filename"
    by (simp add: label_parts_def join_split_char)
  have clean: "\<forall>p \<in> set (label_parts filename). CHR ''_'' \<notin> set p \<and> CHR ''.'' \<notin> set p"
  proof
    fix p assume p: "p \<in> set (label_parts filename)"
    then have us: "CHR ''_'' \<notin> set p"
      unfolding label_parts_def by (rule split_char_no_sep)
    have "set p \<subseteq> set (replace_char CHR ''.'' CHR ''_'' filename)"
      using joined p join_parts_subset by metis
    moreover have "CHR ''.'' \<notin> set (replace_char CHR ''.'' CHR ''_'' filename)"
      by (rule replace_char_absent) simp
    ultimately show "CHR ''_'' \<notin> set p \<and> CHR ''.'' \<notin> set p"
      using us by auto
  qed
  have none: "(\<forall>p \<in> set (label_parts filename).
          (if up p = ''PROESTTRUS'' then ''PROESTRUS'' else up p) \<notin> set valid_stages)
        \<longrightarrow> parse_label_with up filename = ''UNKNOWN''"
    using parse_parts_none [of "label_parts filename" up]
    by (simp add: parse_label_with_def)
  have first: "label_parts filename = pre @ p # post
        \<and> (\<forall>q \<in> set pre.
              (if up q = ''PROESTTRUS'' then ''PROESTRUS'' else up q) \<notin> set valid_stages)
        \<and> (if up p = ''PROESTTRUS'' then ''PROESTRUS'' else up p) \<in> set valid_stages
        \<longrightarrow> parse_label_with up filename
              = (if up p = ''PROESTTRUS'' then ''PROESTRUS'' else up p)"
    using parse_parts_first [of pre up p post]
    by (simp add: parse_label_with_def)
  from range joined clean none first show ?thesis by blast
qed

theorem parse_label_result_witness:
  "parse_label ''222_10_11_Proesttrus.jpg'' = ''PROESTRUS''
   \<and> parse_label ''mouse7.estrus_diestrus.png'' = ''ESTRUS''
   \<and> parse_label ''IMG_0042.jpeg'' = ''UNKNOWN''"
proof -
  let ?norm = "\<lambda>p. if upper p = ''PROESTTRUS'' then ''PROESTRUS'' else upper p"
  have a1: "label_parts ''222_10_11_Proesttrus.jpg''
      = [''222'', ''10'', ''11''] @ ''Proesttrus'' # [''jpg'']"
    by code_simp
  have a2: "\<forall>q \<in> set [''222'', ''10'', ''11'']. ?norm q \<notin> set valid_stages"
    by code_simp
  have a3: "?norm ''Proesttrus'' \<in> set valid_stages"
    by code_simp
  have a4: "?norm ''Proesttrus'' = ''PROESTRUS''"
    by code_simp
  have "parse_label_with upper ''222_10_11_Proesttrus.jpg'' = ?norm ''Proesttrus''"
    by (rule parse_label_result [where pre = "[''222'', ''10'', ''11'']" and post = "[''jpg'']",
          THEN conjunct2, THEN conjunct2, THEN conjunct2, THEN conjunct2, THEN mp])
      (intro conjI a1 a2 a3)
  with a4 have a: "parse_label ''222_10_11_Proesttrus.jpg'' = ''PROESTRUS''"
    by (simp add: parse_label_def)
  have b1: "label_parts ''mouse7.estrus_diestrus.png''
      = [''mouse7''] @ ''estrus'' # [''diestrus'', ''png'']"
    by code_simp
  have b2: "\<forall>q \<in> set [''mouse7'']. ?norm q \<notin> set valid_stages"
    by code_simp
  have b3: "?norm ''estrus'' \<in> set valid_stages"
    by code_simp
  have b4: "?norm ''estrus'' = ''ESTRUS''"
    by code_simp
  have "parse_label_with upper ''mouse7.estrus_diestrus.png'' = ?norm ''estrus''"
    by (rule parse_label_result [where pre = "[''mouse7'']" and post = "[''diestrus'', ''png'']",
          THEN conjunct2, THEN conjunct2, THEN conjunct2, THEN conjunct2, THEN mp])
      (intro conjI b1 b2 b3)
  with b4 have b: "parse_label ''mouse7.estrus_diestrus.png'' = ''ESTRUS''"
    by (simp add: parse_label_def)
  have c1: "\<forall>p \<in> set (label_parts ''IMG_0042.jpeg''). ?norm p \<notin> set valid_stages"
    by code_simp
  have "parse_label_with upper ''IMG_0042.jpeg'' = ''UNKNOWN''"
    by (rule parse_label_result [where pre = "[]" and p = "[]" and post = "[]",
          THEN conjunct2, THEN conjunct2, THEN conjunct2, THEN conjunct1, THEN mp]) (rule c1)
  then have c: "parse_label ''IMG_0042.jpeg'' = ''UNKNOWN''"
    by (simp add: parse_label_def)
  from a b c show ?thesis by simp
qed

section \<open>Failures of the segmentation and of the embedding\<close>



section \<open>The crop box of a mask\<close>

text \<open>
  C2. For a mask of \<open>h\<close> rows and \<open>w\<close> columns with at least one true pixel,
  \<open>segment_with_sam2\<close> takes \<open>ymin\<close> and \<open>ymax\<close> to be the first and the last row that
  contain a true pixel and \<open>xmin\<close> and \<open>xmax\<close> the first and the last such column, so that
  every true pixel lies in the box and each of its four sides touches one; it pads the box
  by 20 pixels on each side, clamps it below at 0 and above at \<open>w\<close> and \<open>h\<close>, so that all
  four coordinates lie within the image, and returns the crop of the image to that box
  (\<open>None\<close> when \<open>Image.crop\<close> raises).
  \<open>crop_genitals\<close> pads and clamps its detection box by the same \<^const>\<open>pad_box\<close>.
\<close>

theorem mask_crop_bounding_box:
  fixes crop :: "'img \<Rightarrow> int box \<Rightarrow> py_exn + 'img"
  assumes "int (length m) = h"
      and "\<forall>row \<in> set m. int (length row) = w"
      and "\<exists>row \<in> set m. True \<in> set row"
  shows "\<exists>ylo yhi xlo xhi.
      ylo \<le> yhi \<and> int yhi < h \<and> xlo \<le> xhi \<and> int xhi < w
    \<and> True \<in> set (m ! ylo) \<and> True \<in> set (m ! yhi)
    \<and> (\<forall>i < length m. True \<in> set (m ! i) \<longrightarrow> ylo \<le> i \<and> i \<le> yhi)
    \<and> (\<exists>i < length m. m ! i ! xlo) \<and> (\<exists>i < length m. m ! i ! xhi)
    \<and> (\<forall>i < length m. \<forall>j < nat w. m ! i ! j \<longrightarrow> xlo \<le> j \<and> j \<le> xhi)
    \<and> mask_crop crop img w h m =
          (case crop img (max 0 (int xlo - 20), max 0 (int ylo - 20),
                          min w (int xhi + 20), min h (int yhi + 20)) of
             Inl e \<Rightarrow> Inl e
           | Inr region \<Rightarrow> Inr (Some region))
    \<and> (loaded \<and> size_of img = (w, h) \<and> infer img = Inr ((m # ms) # mss)
       \<longrightarrow> fst (segment_with_sam2 loaded infer size_of crop img) =
          (case crop img (max 0 (int xlo - 20), max 0 (int ylo - 20),
                          min w (int xhi + 20), min h (int yhi + 20)) of
             Inl e \<Rightarrow> None
           | Inr region \<Rightarrow> Some region))
    \<and> 0 \<le> max 0 (int xlo - 20) \<and> max 0 (int xlo - 20) \<le> w
    \<and> 0 \<le> min w (int xhi + 20) \<and> min w (int xhi + 20) \<le> w
    \<and> 0 \<le> max 0 (int ylo - 20) \<and> max 0 (int ylo - 20) \<le> h
    \<and> 0 \<le> min h (int yhi + 20) \<and> min h (int yhi + 20) \<le> h"
proof -
  from mask_crop_characterisation [OF assms] obtain ylo yhi xlo xhi where
    c: "ylo \<le> yhi" "int yhi < h" "xlo \<le> xhi" "int xhi < w"
       "True \<in> set (m ! ylo)" "True \<in> set (m ! yhi)"
       "\<forall>i < length m. True \<in> set (m ! i) \<longrightarrow> ylo \<le> i \<and> i \<le> yhi"
       "\<exists>i < length m. m ! i ! xlo" "\<exists>i < length m. m ! i ! xhi"
       "\<forall>i < length m. \<forall>j < nat w. m ! i ! j \<longrightarrow> xlo \<le> j \<and> j \<le> xhi"
       "\<forall>(crop :: 'img \<Rightarrow> int box \<Rightarrow> py_exn + 'img) img. mask_crop crop img w h m =
          (case crop img (max 0 (int xlo - 20), max 0 (int ylo - 20),
                          min w (int xhi + 20), min h (int yhi + 20)) of
             Inl e \<Rightarrow> Inl e
           | Inr region \<Rightarrow> Inr (Some region))"
    by blast
  have x: "0 \<le> max 0 (int xlo - 20) \<and> max 0 (int xlo - 20) \<le> w
    \<and> 0 \<le> min w (int xhi + 20) \<and> min w (int xhi + 20) \<le> w"
    using c(3,4) by auto
  have y: "0 \<le> max 0 (int ylo - 20) \<and> max 0 (int ylo - 20) \<le> h
    \<and> 0 \<le> min h (int yhi + 20) \<and> min h (int yhi + 20) \<le> h"
    using c(1,2) by auto
  from c(11) have run: "mask_crop crop img w h m =
          (case crop img (max 0 (int xlo - 20), max 0 (int ylo - 20),
                          min w (int xhi + 20), min h (int yhi + 20)) of
             Inl e \<Rightarrow> Inl e
           | Inr region \<Rightarrow> Inr (Some region))"
    by blast
  have whole: "loaded \<and> size_of img = (w, h) \<and> infer img = Inr ((m # ms) # mss)
       \<longrightarrow> fst (segment_with_sam2 loaded infer size_of crop img) =
          (case crop img (max 0 (int xlo - 20), max 0 (int ylo - 20),
                          min w (int xhi + 20), min h (int yhi + 20)) of
             Inl e \<Rightarrow> None
           | Inr region \<Rightarrow> Some region)"
    by (simp add: segment_with_sam2_def sam2_try_def run split: sum.splits)
  from c(1-10) run whole x y show ?thesis by blast
qed

theorem mask_crop_bounding_box_witness:
  "mask_crop (\<lambda>img box. Inr box) (0, 0, 4, 3) 4 3
      [[False, False, False, False],
       [False, True, True, False],
       [False, False, True, False]]
     = Inr (Some (0, 0, 4, 3))
   \<and> fst (segment_with_sam2 True
        (\<lambda>img. Inr [[[[False, False, False, False],
                       [False, True, True, False],
                       [False, False, True, False]]]])
        (\<lambda>img. (4, 3)) (\<lambda>img box. Inr box) (0, 0, 4, 3))
     = Some (0, 0, 4, 3)"
proof -
  let ?m = "[[False, False, False, False],
             [False, True, True, False],
             [False, False, True, False]]"
  let ?crop = "\<lambda>(img :: int box) (box :: int box). (Inr box :: py_exn + int box)"
  let ?infer = "\<lambda>img :: int box. (Inr [[?m]] :: py_exn + mask list list)"
  let ?size = "\<lambda>img :: int box. (4 :: int, 3 :: int)"
  have h1: "int (length ?m) = 3" by simp
  have h2: "\<forall>row \<in> set ?m. int (length row) = 4" by simp
  have h3: "\<exists>row \<in> set ?m. True \<in> set row" by simp
  from mask_crop_bounding_box [OF h1 h2 h3, where loaded = True and size_of = ?size
      and img = "(0, 0, 4, 3)" and infer = ?infer and ms = "[]" and mss = "[]" and crop = ?crop]
  obtain ylo yhi xlo xhi where
    c: "ylo \<le> yhi" "int yhi < 3" "xlo \<le> xhi" "int xhi < 4"
       "mask_crop ?crop (0, 0, 4, 3) 4 3 ?m
          = Inr (Some (max 0 (int xlo - 20), max 0 (int ylo - 20),
                        min 4 (int xhi + 20), min 3 (int yhi + 20)))"
       "fst (segment_with_sam2 True ?infer ?size ?crop (0, 0, 4, 3))
          = Some (max 0 (int xlo - 20), max 0 (int ylo - 20),
                   min 4 (int xhi + 20), min 3 (int yhi + 20))"
    by auto
  have b: "(max 0 (int xlo - 20), max 0 (int ylo - 20),
            min 4 (int xhi + 20), min 3 (int yhi + 20)) = (0, 0, 4, 3)"
    using c(1-4) by auto
  from c(5,6) show ?thesis
    unfolding b by simp
qed

section \<open>The two endpoints\<close>




section \<open>One request, no exception\<close>

text \<open>
  C4. Every call of \<open>segment_with_sam3_cloud\<close> posts at most one request, and it returns: it
  never raises, and exactly one of the image and the error message it returns is \<open>None\<close>.
  With the URL or the token missing it returns \<open>(None, message)\<close> without any request. When
  the request times out, when the connection fails, when the status is not 200, and when a
  response with status 200 can be read neither as an image nor as JSON, it returns
  \<open>(None, message)\<close> after that single request.
\<close>

theorem sam3_cloud_single_request:
  "length (snd (segment_with_sam3_cloud env img prompt bg_mode bg_color timeout)) \<le> 1
   \<and> (\<exists>result error.
         fst (segment_with_sam3_cloud env img prompt bg_mode bg_color timeout)
           = Inr (result, error)
       \<and> (result = None \<longleftrightarrow> error \<noteq> None))
   \<and> (falsy (SAM3_ENDPOINT_URL env)
      \<longrightarrow> segment_with_sam3_cloud env img prompt bg_mode bg_color timeout
            = (Inr (None, Some ''SAM3_ENDPOINT_URL not configured''), []))
   \<and> (\<not> falsy (SAM3_ENDPOINT_URL env) \<and> falsy (HF_TOKEN env)
      \<longrightarrow> segment_with_sam3_cloud env img prompt bg_mode bg_color timeout
            = (Inr (None, Some ''HF_TOKEN not configured''), []))
   \<and> (\<not> falsy (SAM3_ENDPOINT_URL env) \<and> \<not> falsy (HF_TOKEN env)
        \<and> save_jpeg env img = Inr img_bytes
        \<and> requests_post env
             (sam3_request env (b64encode env img_bytes) prompt bg_mode bg_color timeout)
            = Inl (RequestsTimeout m)
      \<longrightarrow> segment_with_sam3_cloud env img prompt bg_mode bg_color timeout
            = (Inr (None, Some (''SAM3 request timed out after '' @ str_int timeout @ ''s'')),
               [sam3_request env (b64encode env img_bytes) prompt bg_mode bg_color timeout]))
   \<and> (\<not> falsy (SAM3_ENDPOINT_URL env) \<and> \<not> falsy (HF_TOKEN env)
        \<and> save_jpeg env img = Inr img_bytes
        \<and> requests_post env
             (sam3_request env (b64encode env img_bytes) prompt bg_mode bg_color timeout)
            = Inl (RequestsConnectionError m)
      \<longrightarrow> segment_with_sam3_cloud env img prompt bg_mode bg_color timeout
            = (Inr (None, Some ''Failed to connect to SAM3 endpoint''),
               [sam3_request env (b64encode env img_bytes) prompt bg_mode bg_color timeout]))
   \<and> (\<not> falsy (SAM3_ENDPOINT_URL env) \<and> \<not> falsy (HF_TOKEN env)
        \<and> save_jpeg env img = Inr img_bytes
        \<and> requests_post env
             (sam3_request env (b64encode env img_bytes) prompt bg_mode bg_color timeout)
            = Inr response
        \<and> status_code response \<noteq> 200
      \<longrightarrow> (\<exists>msg. segment_with_sam3_cloud env img prompt bg_mode bg_color timeout
            = (Inr (None, Some msg),
               [sam3_request env (b64encode env img_bytes) prompt bg_mode bg_color timeout])))
   \<and> (\<not> falsy (SAM3_ENDPOINT_URL env) \<and> \<not> falsy (HF_TOKEN env)
        \<and> save_jpeg env img = Inr img_bytes
        \<and> requests_post env
             (sam3_request env (b64encode env img_bytes) prompt bg_mode bg_color timeout)
            = Inr response
        \<and> status_code response = 200
        \<and> open_bytes env (resp_content response) = Inl e
        \<and> parse_json_image env response = Inl e'
      \<longrightarrow> segment_with_sam3_cloud env img prompt bg_mode bg_color timeout
            = (Inr (None, Some (''Failed to parse response: '' @ exn_str e)),
               [sam3_request env (b64encode env img_bytes) prompt bg_mode bg_color timeout]))"
proof -
  let ?R = "segment_with_sam3_cloud env img prompt bg_mode bg_color timeout"
  let ?req = "sam3_request env (b64encode env img_bytes) prompt bg_mode bg_color timeout"
  have u1: "length (snd ?R) \<le> 1"
    by (rule segment_with_sam3_cloud_posts)
  have u2: "\<exists>result error. fst ?R = Inr (result, error) \<and> (result = None \<longleftrightarrow> error \<noteq> None)"
    by (rule segment_with_sam3_cloud_returns)
  have m1: "falsy (SAM3_ENDPOINT_URL env)
      \<longrightarrow> ?R = (Inr (None, Some ''SAM3_ENDPOINT_URL not configured''), [])"
    by (simp add: segment_with_sam3_cloud_def)
  have m2: "\<not> falsy (SAM3_ENDPOINT_URL env) \<and> falsy (HF_TOKEN env)
      \<longrightarrow> ?R = (Inr (None, Some ''HF_TOKEN not configured''), [])"
    by (simp add: segment_with_sam3_cloud_def)
  have t: "\<not> falsy (SAM3_ENDPOINT_URL env) \<and> \<not> falsy (HF_TOKEN env)
        \<and> save_jpeg env img = Inr img_bytes
        \<and> requests_post env ?req = Inl (RequestsTimeout m)
      \<longrightarrow> ?R = (Inr (None, Some (''SAM3 request timed out after '' @ str_int timeout @ ''s'')),
               [?req])"
    by (simp add: segment_with_sam3_cloud_def sam3_try_def Let_def)
  have c: "\<not> falsy (SAM3_ENDPOINT_URL env) \<and> \<not> falsy (HF_TOKEN env)
        \<and> save_jpeg env img = Inr img_bytes
        \<and> requests_post env ?req = Inl (RequestsConnectionError m)
      \<longrightarrow> ?R = (Inr (None, Some ''Failed to connect to SAM3 endpoint''), [?req])"
    by (simp add: segment_with_sam3_cloud_def sam3_try_def Let_def)
  have s: "\<not> falsy (SAM3_ENDPOINT_URL env) \<and> \<not> falsy (HF_TOKEN env)
        \<and> save_jpeg env img = Inr img_bytes
        \<and> requests_post env ?req = Inr response
        \<and> status_code response \<noteq> 200
      \<longrightarrow> (\<exists>msg. ?R = (Inr (None, Some msg), [?req]))"
  proof (intro impI, elim conjE)
    assume h: "\<not> falsy (SAM3_ENDPOINT_URL env)" "\<not> falsy (HF_TOKEN env)"
      "save_jpeg env img = Inr img_bytes" "requests_post env ?req = Inr response"
      "status_code response \<noteq> 200"
    from handle_response_not_200 [OF h(5)] obtain msg where
      "handle_response env response = (None, Some msg)" by blast
    with h(1-4) have "?R = (Inr (None, Some msg), [?req])"
      by (simp add: segment_with_sam3_cloud_def sam3_try_def Let_def)
    then show "\<exists>msg. ?R = (Inr (None, Some msg), [?req])" by blast
  qed
  have p: "\<not> falsy (SAM3_ENDPOINT_URL env) \<and> \<not> falsy (HF_TOKEN env)
        \<and> save_jpeg env img = Inr img_bytes
        \<and> requests_post env ?req = Inr response
        \<and> status_code response = 200
        \<and> open_bytes env (resp_content response) = Inl e
        \<and> parse_json_image env response = Inl e'
      \<longrightarrow> ?R = (Inr (None, Some (''Failed to parse response: '' @ exn_str e)), [?req])"
    by (simp add: segment_with_sam3_cloud_def sam3_try_def handle_response_def Let_def)
  from u1 u2 m1 m2 t c s p show ?thesis by (intro conjI)
qed

theorem sam3_cloud_single_request_witness:
  "segment_with_sam3_cloud (example_sam3_env\<lparr>SAM3_ENDPOINT_URL := None\<rparr>)
       ''photo'' ''mouse genitalia'' ''mask_crop'' ''black'' 120
     = (Inr (None, Some ''SAM3_ENDPOINT_URL not configured''), [])
   \<and> segment_with_sam3_cloud (example_sam3_env\<lparr>HF_TOKEN := Some []\<rparr>)
       ''photo'' ''mouse genitalia'' ''mask_crop'' ''black'' 120
     = (Inr (None, Some ''HF_TOKEN not configured''), [])
   \<and> segment_with_sam3_cloud example_sam3_env ''photo'' ''timeout'' ''mask_crop'' ''black'' 120
     = (Inr (None, Some ''SAM3 request timed out after 120s''),
        [sam3_request example_sam3_env ''base64 of jpeg of photo'' ''timeout''
           ''mask_crop'' ''black'' 120])
   \<and> segment_with_sam3_cloud example_sam3_env ''photo'' ''offline'' ''mask_crop'' ''black'' 120
     = (Inr (None, Some ''Failed to connect to SAM3 endpoint''),
        [sam3_request example_sam3_env ''base64 of jpeg of photo'' ''offline''
           ''mask_crop'' ''black'' 120])
   \<and> (\<exists>msg. segment_with_sam3_cloud example_sam3_env ''photo'' ''error'' ''mask_crop'' ''black'' 120
     = (Inr (None, Some msg),
        [sam3_request example_sam3_env ''base64 of jpeg of photo'' ''error''
           ''mask_crop'' ''black'' 120]))
   \<and> segment_with_sam3_cloud example_sam3_env ''photo'' ''garbled'' ''mask_crop'' ''black'' 120
     = (Inr (None, Some ''Failed to parse response: cannot identify image file''),
        [sam3_request example_sam3_env ''base64 of jpeg of photo'' ''garbled''
           ''mask_crop'' ''black'' 120])"
proof -
  let ?garbled = "\<lparr>status_code = 200, resp_content = ''garbled'', resp_text = ''garbled'',
                resp_json = Inl (Exception ''Expecting value'')\<rparr>"
  let ?error = "\<lparr>status_code = 500, resp_content = ''{error: CUDA out of memory}'',
                resp_text = ''{error: CUDA out of memory}'',
                resp_json = Inr (JObject [(''error'', JString ''CUDA out of memory'')])\<rparr>"
  have cfg: "\<not> falsy (SAM3_ENDPOINT_URL example_sam3_env)" "\<not> falsy (HF_TOKEN example_sam3_env)"
    by (simp_all add: example_sam3_env_def falsy_def)
  have sv: "save_jpeg example_sam3_env ''photo'' = Inr ''jpeg of photo''"
    and enc: "b64encode example_sam3_env ''jpeg of photo'' = ''base64 of jpeg of photo''"
    by (simp_all add: example_sam3_env_def)
  have post: "\<And>prompt. requests_post example_sam3_env
        (sam3_request example_sam3_env ''base64 of jpeg of photo'' prompt ''mask_crop'' ''black'' 120)
      = requests_post example_sam3_env
          \<lparr>req_url = [], req_authorization = [], req_content_type = [], req_inputs = [],
           req_prompt = prompt, req_bg_mode = [], req_bg_color = [], req_timeout = 0\<rparr>"
    by (simp add: example_sam3_env_def sam3_request_def)
  have s120: "str_int 120 = ''120''"
    by code_simp
  have h1: "falsy (SAM3_ENDPOINT_URL (example_sam3_env\<lparr>SAM3_ENDPOINT_URL := None\<rparr>))"
    by (simp add: falsy_def)
  have h2: "\<not> falsy (SAM3_ENDPOINT_URL (example_sam3_env\<lparr>HF_TOKEN := Some []\<rparr>))
      \<and> falsy (HF_TOKEN (example_sam3_env\<lparr>HF_TOKEN := Some []\<rparr>))"
    by (simp add: falsy_def example_sam3_env_def)
  have h3: "\<not> falsy (SAM3_ENDPOINT_URL example_sam3_env) \<and> \<not> falsy (HF_TOKEN example_sam3_env)
      \<and> save_jpeg example_sam3_env ''photo'' = Inr ''jpeg of photo''
      \<and> requests_post example_sam3_env
           (sam3_request example_sam3_env (b64encode example_sam3_env ''jpeg of photo'')
              ''timeout'' ''mask_crop'' ''black'' 120)
          = Inl (RequestsTimeout ''Read timed out.'')"
    using cfg sv by (simp add: enc post) (simp add: example_sam3_env_def)
  have h4: "\<not> falsy (SAM3_ENDPOINT_URL example_sam3_env) \<and> \<not> falsy (HF_TOKEN example_sam3_env)
      \<and> save_jpeg example_sam3_env ''photo'' = Inr ''jpeg of photo''
      \<and> requests_post example_sam3_env
           (sam3_request example_sam3_env (b64encode example_sam3_env ''jpeg of photo'')
              ''offline'' ''mask_crop'' ''black'' 120)
          = Inl (RequestsConnectionError ''Connection refused'')"
    using cfg sv by (simp add: enc post) (simp add: example_sam3_env_def)
  have h5: "\<not> falsy (SAM3_ENDPOINT_URL example_sam3_env) \<and> \<not> falsy (HF_TOKEN example_sam3_env)
      \<and> save_jpeg example_sam3_env ''photo'' = Inr ''jpeg of photo''
      \<and> requests_post example_sam3_env
           (sam3_request example_sam3_env (b64encode example_sam3_env ''jpeg of photo'')
              ''error'' ''mask_crop'' ''black'' 120)
          = Inr ?error
      \<and> status_code ?error \<noteq> 200"
    using cfg sv by (simp add: enc post) (simp add: example_sam3_env_def)
  have h6: "\<not> falsy (SAM3_ENDPOINT_URL example_sam3_env) \<and> \<not> falsy (HF_TOKEN example_sam3_env)
      \<and> save_jpeg example_sam3_env ''photo'' = Inr ''jpeg of photo''
      \<and> requests_post example_sam3_env
           (sam3_request example_sam3_env (b64encode example_sam3_env ''jpeg of photo'')
              ''garbled'' ''mask_crop'' ''black'' 120)
          = Inr ?garbled
      \<and> status_code ?garbled = 200
      \<and> open_bytes example_sam3_env (resp_content ?garbled)
          = Inl (Exception ''cannot identify image file'')
      \<and> parse_json_image example_sam3_env ?garbled = Inl (Exception ''Expecting value'')"
    using cfg sv
    by (simp add: enc post parse_json_image_def) (simp add: example_sam3_env_def)
  note t = sam3_cloud_single_request [where img = "''photo''" and bg_mode = "''mask_crop''"
      and bg_color = "''black''" and timeout = 120]
  have w1: "segment_with_sam3_cloud (example_sam3_env\<lparr>SAM3_ENDPOINT_URL := None\<rparr>)
       ''photo'' ''mouse genitalia'' ''mask_crop'' ''black'' 120
     = (Inr (None, Some ''SAM3_ENDPOINT_URL not configured''), [])"
    by (rule t [THEN conjunct2, THEN conjunct2, THEN conjunct1, THEN mp, OF h1])
  have w2: "segment_with_sam3_cloud (example_sam3_env\<lparr>HF_TOKEN := Some []\<rparr>)
       ''photo'' ''mouse genitalia'' ''mask_crop'' ''black'' 120
     = (Inr (None, Some ''HF_TOKEN not configured''), [])"
    by (rule t [THEN conjunct2, THEN conjunct2, THEN conjunct2, THEN conjunct1, THEN mp, OF h2])
  have w3: "segment_with_sam3_cloud example_sam3_env ''photo'' ''timeout'' ''mask_crop'' ''black'' 120
     = (Inr (None, Some ''SAM3 request timed out after 120s''),
        [sam3_request example_sam3_env ''base64 of jpeg of photo'' ''timeout''
           ''mask_crop'' ''black'' 120])"
    using t [THEN conjunct2, THEN conjunct2, THEN conjunct2, THEN conjunct2, THEN conjunct1,
        THEN mp, OF h3]
    by (simp add: enc s120)
  have w4: "segment_with_sam3_cloud example_sam3_env ''photo'' ''offline'' ''mask_crop'' ''black'' 120
     = (Inr (None, Some ''Failed to connect to SAM3 endpoint''),
        [sam3_request example_sam3_env ''base64 of jpeg of photo'' ''offline''
           ''mask_crop'' ''black'' 120])"
    using t [THEN conjunct2, THEN conjunct2, THEN conjunct2, THEN conjunct2, THEN conjunct2,
        THEN conjunct1, THEN mp, OF h4]
    by (simp add: enc)
  have w5: "\<exists>msg. segment_with_sam3_cloud example_sam3_env ''photo'' ''error'' ''mask_crop'' ''black'' 120
     = (Inr (None, Some msg),
        [sam3_request example_sam3_env ''base64 of jpeg of photo'' ''error''
           ''mask_crop'' ''black'' 120])"
    using t [THEN conjunct2, THEN conjunct2, THEN conjunct2, THEN conjunct2, THEN conjunct2,
        THEN conjunct2, THEN conjunct1, THEN mp, OF h5]
    by (simp add: enc)
  have w6: "segment_with_sam3_cloud example_sam3_env ''photo'' ''garbled'' ''mask_crop'' ''black'' 120
     = (Inr (None, Some ''Failed to parse response: cannot identify image file''),
        [sam3_request example_sam3_env ''base64 of jpeg of photo'' ''garbled''
           ''mask_crop'' ''black'' 120])"
    using t [THEN conjunct2, THEN conjunct2, THEN conjunct2, THEN conjunct2, THEN conjunct2,
        THEN conjunct2, THEN conjunct2, THEN mp, OF h6]
    by (simp add: enc)
  from w1 w2 w3 w4 w5 w6 show ?thesis by (intro conjI)
qed

section \<open>The split of a label\<close>




section \<open>Every image of an archive becomes a JPEG\<close>



section \<open>Which library classifies\<close>




section \<open>Well-formed crop boxes\<close>

text \<open>
  C9, as amended. The coordinates of the padded box always satisfy \<open>0 \<le> xmin\<close>,
  \<open>0 \<le> ymin\<close>, \<open>xmax \<le> w\<close> and \<open>ymax \<le> h\<close>. The box is well-formed and within the image,
  \<open>0 \<le> xmin \<le> xmax \<le> w\<close> and \<open>0 \<le> ymin \<le> ymax \<le> h\<close>, for every input box with
  \<open>xmin \<le> xmax\<close> and \<open>ymin \<le> ymax\<close> that begins at most 20 pixels beyond the right and
  bottom edges and ends at most 20 pixels before the left and top edges of an image of
  size \<open>w, h \<ge> 0\<close>; and the box that \<open>segment_with_sam2\<close> passes to \<open>Image.crop\<close> for a
  mask of the image's size with a true pixel always is.
\<close>

theorem crop_box_well_formed:
  fixes w h xmin ymin xmax ymax :: "'a::linordered_idom"
  shows
  "(case pad_box w h (xmin, ymin, xmax, ymax) of (x0, y0, x1, y1) \<Rightarrow>
      0 \<le> x0 \<and> 0 \<le> y0 \<and> x1 \<le> w \<and> y1 \<le> h)
   \<and> (0 \<le> w \<and> 0 \<le> h \<and> xmin \<le> xmax \<and> ymin \<le> ymax
        \<and> xmin - 20 \<le> w \<and> 0 \<le> xmax + 20 \<and> ymin - 20 \<le> h \<and> 0 \<le> ymax + 20
      \<longrightarrow> (case pad_box w h (xmin, ymin, xmax, ymax) of (x0, y0, x1, y1) \<Rightarrow>
             0 \<le> x0 \<and> x0 \<le> x1 \<and> x1 \<le> w \<and> 0 \<le> y0 \<and> y0 \<le> y1 \<and> y1 \<le> h))
   \<and> (int (length m) = mh \<and> (\<forall>row \<in> set m. int (length row) = mw)
        \<and> (\<exists>row \<in> set m. True \<in> set row)
      \<longrightarrow> (\<exists>x0 y0 x1 y1.
             0 \<le> x0 \<and> x0 \<le> x1 \<and> x1 \<le> mw \<and> 0 \<le> y0 \<and> y0 \<le> y1 \<and> y1 \<le> mh
           \<and> (\<forall>(crop :: 'img \<Rightarrow> int box \<Rightarrow> py_exn + 'img) img. mask_crop crop img mw mh m =
                 (case crop img (x0, y0, x1, y1) of
                    Inl e \<Rightarrow> Inl e
                  | Inr region \<Rightarrow> Inr (Some region)))))"
proof -
  have always: "case pad_box w h (xmin, ymin, xmax, ymax) of (x0, y0, x1, y1) \<Rightarrow>
      0 \<le> x0 \<and> 0 \<le> y0 \<and> x1 \<le> w \<and> y1 \<le> h"
    by (simp add: pad_box_def Let_def)
  have near: "0 \<le> w \<and> 0 \<le> h \<and> xmin \<le> xmax \<and> ymin \<le> ymax
        \<and> xmin - 20 \<le> w \<and> 0 \<le> xmax + 20 \<and> ymin - 20 \<le> h \<and> 0 \<le> ymax + 20
      \<longrightarrow> (case pad_box w h (xmin, ymin, xmax, ymax) of (x0, y0, x1, y1) \<Rightarrow>
             0 \<le> x0 \<and> x0 \<le> x1 \<and> x1 \<le> w \<and> 0 \<le> y0 \<and> y0 \<le> y1 \<and> y1 \<le> h)"
    by (intro impI, elim conjE, rule pad_box_inside)
  have masked: "int (length m) = mh \<and> (\<forall>row \<in> set m. int (length row) = mw)
        \<and> (\<exists>row \<in> set m. True \<in> set row)
      \<longrightarrow> (\<exists>x0 y0 x1 y1.
             0 \<le> x0 \<and> x0 \<le> x1 \<and> x1 \<le> mw \<and> 0 \<le> y0 \<and> y0 \<le> y1 \<and> y1 \<le> mh
           \<and> (\<forall>(crop :: 'img \<Rightarrow> int box \<Rightarrow> py_exn + 'img) img. mask_crop crop img mw mh m =
                 (case crop img (x0, y0, x1, y1) of
                    Inl e \<Rightarrow> Inl e
                  | Inr region \<Rightarrow> Inr (Some region))))"
  proof (intro impI, elim conjE)
    assume a: "int (length m) = mh" "\<forall>row \<in> set m. int (length row) = mw"
      "\<exists>row \<in> set m. True \<in> set row"
    from mask_crop_characterisation [OF a] obtain ylo yhi xlo xhi where
      c: "ylo \<le> yhi" "int yhi < mh" "xlo \<le> xhi" "int xhi < mw"
       "\<forall>(crop :: 'img \<Rightarrow> int box \<Rightarrow> py_exn + 'img) img. mask_crop crop img mw mh m =
          (case crop img (max 0 (int xlo - 20), max 0 (int ylo - 20),
                          min mw (int xhi + 20), min mh (int yhi + 20)) of
             Inl e \<Rightarrow> Inl e
           | Inr region \<Rightarrow> Inr (Some region))"
      by blast
    have "0 \<le> max 0 (int xlo - 20) \<and> max 0 (int xlo - 20) \<le> min mw (int xhi + 20)
        \<and> min mw (int xhi + 20) \<le> mw"
      using c(3,4) by auto
    moreover have "0 \<le> max 0 (int ylo - 20) \<and> max 0 (int ylo - 20) \<le> min mh (int yhi + 20)
        \<and> min mh (int yhi + 20) \<le> mh"
      using c(1,2) by auto
    ultimately show "\<exists>x0 y0 x1 y1.
             0 \<le> x0 \<and> x0 \<le> x1 \<and> x1 \<le> mw \<and> 0 \<le> y0 \<and> y0 \<le> y1 \<and> y1 \<le> mh
           \<and> (\<forall>(crop :: 'img \<Rightarrow> int box \<Rightarrow> py_exn + 'img) img. mask_crop crop img mw mh m =
                 (case crop img (x0, y0, x1, y1) of
                    Inl e \<Rightarrow> Inl e
                  | Inr region \<Rightarrow> Inr (Some region)))"
      using c(5) by blast
  qed
  from always near masked show ?thesis by blast
qed

theorem crop_box_well_formed_witness:
  "pad_box (640::int) 480 (100, 50, 200, 120) = (80, 30, 220, 140)
   \<and> (case pad_box (640::int) 480 (100, 50, 200, 120) of (x0, y0, x1, y1) \<Rightarrow>
        0 \<le> x0 \<and> x0 \<le> x1 \<and> x1 \<le> 640 \<and> 0 \<le> y0 \<and> y0 \<le> y1 \<and> y1 \<le> 480)
   \<and> (\<exists>x0 y0 x1 y1.
         0 \<le> x0 \<and> x0 \<le> x1 \<and> x1 \<le> 4 \<and> 0 \<le> y0 \<and> y0 \<le> y1 \<and> y1 \<le> 3
       \<and> (\<forall>crop img. mask_crop crop (img :: string) 4 3
                 [[False, False, False, False],
                  [False, True, True, False],
                  [False, False, True, False]] =
             (case crop img (x0, y0, x1, y1) of
                Inl e \<Rightarrow> Inl e
              | Inr region \<Rightarrow> Inr (Some (region :: string)))))"
proof -
  let ?m = "[[False, False, False, False],
             [False, True, True, False],
             [False, False, True, False]]"
  note t = crop_box_well_formed [of 640 480 100 50 200 120 ?m 3 4]
  have a: "pad_box (640::int) 480 (100, 50, 200, 120) = (80, 30, 220, 140)"
    by (simp add: pad_box_def)
  have h1: "(0::int) \<le> 640 \<and> (0::int) \<le> 480 \<and> (100::int) \<le> 200 \<and> (50::int) \<le> 120
        \<and> (100::int) - 20 \<le> 640 \<and> (0::int) \<le> 200 + 20 \<and> (50::int) - 20 \<le> 480
        \<and> (0::int) \<le> 120 + 20"
    by simp
  have h2: "int (length ?m) = 3 \<and> (\<forall>row \<in> set ?m. int (length row) = 4)
        \<and> (\<exists>row \<in> set ?m. True \<in> set row)"
    by simp
  from t [THEN conjunct2, THEN conjunct1, THEN mp, OF h1]
       t [THEN conjunct2, THEN conjunct2, THEN mp, OF h2] a
  show ?thesis by blast
qed

theorem crop_box_well_formed_counterexample:
  "(130::real) \<le> 140 \<and> (0::real) \<le> 10
   \<and> pad_box (100::real) 100 (130, 0, 140, 10) = (110, 0, 100, 30)
   \<and> \<not> (110::real) \<le> 100"
  by (simp add: pad_box_def)

section \<open>The guards of the classification endpoint\<close>

text \<open>
  C10, as amended. A request to \<open>POST /classify\<close> fails with status 503 when the BioCLIP
  model or its preprocessing is not initialised, whatever \<open>USE_LINEAR_PROBE\<close> is. When they
  are initialised, it fails with status 400 if \<open>USE_LINEAR_PROBE\<close> is false and otherwise
  with status 503 if no classifier is loaded. In all three cases it fails before the
  upload is read or decoded: nothing is read, decoded, segmented, embedded or classified
  (the list of events is empty).
\<close>

theorem classify_image_guards:
  "(\<not> bioclip_model srv \<or> \<not> bioclip_preprocess srv
      \<longrightarrow> classify_image srv env file
            = (Inl (HTTPException 503 ''BioCLIP model not initialized''), []))
   \<and> (bioclip_model srv \<and> bioclip_preprocess srv \<and> \<not> USE_LINEAR_PROBE srv
      \<longrightarrow> classify_image srv env file
            = (Inl (HTTPException 400
                 ''Linear Probe disabled. Use /embed endpoint for k-NN classification.''), []))
   \<and> (bioclip_model srv \<and> bioclip_preprocess srv \<and> USE_LINEAR_PROBE srv
        \<and> classifier_data srv = None
      \<longrightarrow> classify_image srv env file
            = (Inl (HTTPException 503
                 ''Classifier not loaded. Run train_classifier.py first.''), []))"
  by (simp add: classify_image_def)

theorem classify_image_guards_witness:
  "classify_image (example_service\<lparr>bioclip_model := False\<rparr>) example_service_env ()
     = (Inl (HTTPException 503 ''BioCLIP model not initialized''), [])
   \<and> classify_image (example_service\<lparr>USE_LINEAR_PROBE := False\<rparr>) example_service_env ()
     = (Inl (HTTPException 400
          ''Linear Probe disabled. Use /embed endpoint for k-NN classification.''), [])
   \<and> classify_image (example_service\<lparr>classifier_data := None\<rparr>) example_service_env ()
     = (Inl (HTTPException 503 ''Classifier not loaded. Run train_classifier.py first.''), [])"
proof -
  have a: "\<not> bioclip_model (example_service\<lparr>bioclip_model := False\<rparr>)
        \<or> \<not> bioclip_preprocess (example_service\<lparr>bioclip_model := False\<rparr>)"
    by simp
  have b: "bioclip_model (example_service\<lparr>USE_LINEAR_PROBE := False\<rparr>)
        \<and> bioclip_preprocess (example_service\<lparr>USE_LINEAR_PROBE := False\<rparr>)
        \<and> \<not> USE_LINEAR_PROBE (example_service\<lparr>USE_LINEAR_PROBE := False\<rparr>)"
    by (simp add: example_service_def)
  have c: "bioclip_model (example_service\<lparr>classifier_data := None\<rparr>)
        \<and> bioclip_preprocess (example_service\<lparr>classifier_data := None\<rparr>)
        \<and> USE_LINEAR_PROBE (example_service\<lparr>classifier_data := None\<rparr>)
        \<and> classifier_data (example_service\<lparr>classifier_data := None\<rparr>) = None"
    by (simp add: example_service_def)
  note t = classify_image_guards [of _ example_service_env "()"]
  from t [THEN conjunct1, THEN mp, OF a]
       t [THEN conjunct2, THEN conjunct1, THEN mp, OF b]
       t [THEN conjunct2, THEN conjunct2, THEN mp, OF c]
  show ?thesis by blast
qed

theorem classify_image_guards_counterexample:
  "\<not> USE_LINEAR_PROBE (example_service\<lparr>bioclip_model := False, USE_LINEAR_PROBE := False\<rparr>)
   \<and> classify_image (example_service\<lparr>bioclip_model := False, USE_LINEAR_PROBE := False\<rparr>)
        example_service_env ()
      = (Inl (HTTPException 503 ''BioCLIP model not initialized''), [])
   \<and> HTTPException 503 ''BioCLIP model not initialized''
      \<noteq> HTTPException 400
          ''Linear Probe disabled. Use /embed endpoint for k-NN classification.''"
  by (simp add: classify_image_def)

end
